theory Spec2Isabelle
  imports Main "HOL-Library.AList"
begin

section \<open>The cache of cornerstone-core (cache/cache.ts)\<close>

text \<open>
  The class \<open>Cache\<close> keeps two JavaScript \<open>Map\<close>s (image ids and volume ids to their
  entries), a running byte total and a maximum. The model passes the state of the
  object explicitly: every method takes the cache and returns an outcome together with
  the cache it leaves behind. An exception does not undo the assignments made before
  it was thrown, so a failing call returns the state reached at the throw as well.

  Numbers are JavaScript numbers holding byte counts and time stamps; they are modelled
  as \<open>int\<close>. \<open>Date.now()\<close> is a parameter \<open>now\<close> of the methods that read the clock.
  \<open>console.warn\<close> writes to the console only and is left out.
\<close>

subsection \<open>Values and errors\<close>

datatype error =
    TypeError
  | ReferenceError
  | Error string

text \<open>
  The property \<open>sizeInBytes\<close> of an artifact, as the checks of the completion callback
  tell its values apart. The first check asks for \<open>undefined\<close>; the second reads the
  property \<open>toFixed\<close> of the value, which throws on \<open>null\<close> and finds nothing on a
  string, a boolean or an object without that property (\<open>SizeOther\<close>). \<open>SizeNumber n\<close> is
  the integer number \<open>n\<close>, which passes both checks and is added to the total.

  The second check is duck typing: \<open>NaN\<close>, an infinity, a fraction and any object that
  has a property \<open>toFixed\<close> pass it too, and \<open>+=\<close> then takes the total out of the
  integers. The totals of this model are integers, so such sizes have no value here:
  every statement below that names a size names one of these four kinds.
\<close>

datatype size_val =
    SizeUndefined
  | SizeNull
  | SizeNumber int
  | SizeOther

record artifact =
  art_sizeInBytes :: size_val
  art_sharedCacheKey :: "string option"

text \<open>
  The property \<open>cancelFn\<close> of a load object, as \<open>putImageLoadObject\<close> tests it: falsy
  (absent), a function, or a truthy value that is not a function.
\<close>

datatype cancelFn_val =
    CancelFnAbsent
  | CancelFnFunction
  | CancelFnOther

text \<open>
  \<open>ImageLoadObject\<close> and \<open>VolumeLoadObject\<close> have the same shape. The promise itself is
  outside the cache: the model records whether the property is defined, and the two
  callbacks given to \<open>promise.then\<close> are the functions \<open>imageLoaded\<close>/\<open>imageFailed\<close>
  (and their volume twins) below. \<open>cancel\<close> and \<open>decache\<close> say whether the optional hook
  is present; a hook that is present is a function of the loader, assumed to return
  and not to call back into the cache.
\<close>

record loadObject =
  promise :: bool
  cancel :: bool
  decache :: bool
  cancelFn :: cancelFn_val

text \<open>
  \<open>CachedImage\<close> and \<open>CachedVolume\<close>. An entry is a JavaScript object: the closure of
  the callbacks keeps the object it created, and assigns to that object whether or not
  the \<open>Map\<close> still holds it. \<open>obj\<close> is the identity of the object (the number of entry
  objects created before it); an assignment through the closure reaches the entry of
  the \<open>Map\<close> exactly when that entry has the closure's \<open>obj\<close>.
\<close>

record cachedImage =
  image' :: "artifact option"
  imageId :: string
  imageLoadObject :: loadObject
  loaded :: bool
  sharedCacheKey :: "string option"
  timeStamp :: int
  sizeInBytes :: int
  obj :: nat

record cachedVolume =
  volume :: "artifact option"
  volumeId :: string
  volumeLoadObject :: loadObject
  vloaded :: bool
  vtimeStamp :: int
  vsizeInBytes :: int
  vobj :: nat

text \<open>
  What the cache does to its collaborators, in order: the events given to
  \<open>triggerEvent\<close> (with the id of the entry they carry) and the hooks it called (with
  the identity of the entry whose load object was asked). The field \<open>trace\<close> of the
  cache collects them, oldest first.
\<close>

datatype event =
    IMAGE_CACHE_IMAGE_ADDED string
  | IMAGE_CACHE_IMAGE_REMOVED string
  | IMAGE_CACHE_VOLUME_ADDED string
  | IMAGE_CACHE_VOLUME_REMOVED string
  | CancelCalled nat
  | DecacheCalled nat

text \<open>
  A \<open>Map\<close> iterates in insertion order, \<open>set\<close> on a present key replaces the value in
  place and on a new key appends, \<open>delete\<close> removes the key: an association list with
  \<open>AList.update\<close>, \<open>AList.delete\<close> and \<open>map_of\<close>.
\<close>

record cache =
  imageCache :: "(string \<times> cachedImage) list"
  volumeCache :: "(string \<times> cachedVolume) list"
  cacheSize :: int
  maxCacheSize :: int
  trace :: "event list"
  allocated :: nat

type_synonym 'a outcome = "(error + 'a) \<times> cache"

subsection \<open>Construction, capacity and accessors\<close>

definition MAX_CACHE_SIZE_1GB :: int where
  "MAX_CACHE_SIZE_1GB = 1073741824"

definition new_cache :: cache where
  "new_cache =
     \<lparr> imageCache = [], volumeCache = [], cacheSize = 0,
       maxCacheSize = MAX_CACHE_SIZE_1GB, trace = [], allocated = 0 \<rparr>"

definition getMaxCacheSize :: "cache \<Rightarrow> int" where
  "getMaxCacheSize c = maxCacheSize c"

definition getCacheSize :: "cache \<Rightarrow> int" where
  "getCacheSize c = cacheSize c"

text \<open>The assignment comes first; the test that throws reads the new maximum.\<close>

definition setMaxCacheSize :: "int \<Rightarrow> cache \<Rightarrow> unit outcome" where
  "setMaxCacheSize newMaxCacheSize c =
     (let c' = c\<lparr>maxCacheSize := newMaxCacheSize\<rparr> in
      if maxCacheSize c' > cacheSize c'
      then (Inl (Error ''New max cacheSize larger than current cachesize''), c')
      else (Inr (), c'))"

definition incrementCacheSize :: "int \<Rightarrow> cache \<Rightarrow> cache" where
  "incrementCacheSize increment c = c\<lparr>cacheSize := cacheSize c + increment\<rparr>"

definition triggerEvent :: "event \<Rightarrow> cache \<Rightarrow> cache" where
  "triggerEvent ev c = c\<lparr>trace := trace c @ [ev]\<rparr>"

definition callHook :: "event \<Rightarrow> cache \<Rightarrow> cache" where
  "callHook ev c = c\<lparr>trace := trace c @ [ev]\<rparr>"

text \<open>\<open>Map.prototype.get\<close> at an argument that may be \<open>undefined\<close>: the keys are strings.\<close>

fun Map_get :: "(string \<times> 'a) list \<Rightarrow> string option \<Rightarrow> 'a option" where
  "Map_get m None = None"
| "Map_get m (Some k) = map_of m k"

text \<open>
  \<open>Object.prototype.hasOwnProperty.call(map, id)\<close> asks for an own property of the \<open>Map\<close>
  object. A \<open>Map\<close> keeps its entries in an internal slot, and the cache never assigns a
  property to its maps, so the answer is \<open>false\<close> for every id.
\<close>

definition Map_hasOwnProperty :: "(string \<times> 'a) list \<Rightarrow> string \<Rightarrow> bool" where
  "Map_hasOwnProperty m k = False"

subsection \<open>Dropping an entry\<close>

text \<open>
  \<open>_decacheImage\<close> destructures the entry it reads: on an id that is not in the \<open>Map\<close>
  the destructuring of \<open>undefined\<close> throws a TypeError. It does not touch the total.
\<close>

definition decacheImage :: "string \<Rightarrow> cache \<Rightarrow> unit outcome" where
  "decacheImage iid c =
     (case map_of (imageCache c) iid of
        None \<Rightarrow> (Inl TypeError, c)
      | Some cachedImage \<Rightarrow>
          (let lo = imageLoadObject cachedImage;
               c1 = (if cancel lo then callHook (CancelCalled (obj cachedImage)) c else c);
               c2 = (if decache lo then callHook (DecacheCalled (obj cachedImage)) c1 else c1)
           in (Inr (), c2\<lparr>imageCache := AList.delete iid (imageCache c2)\<rparr>)))"

definition decacheVolume :: "string \<Rightarrow> cache \<Rightarrow> unit outcome" where
  "decacheVolume vid c =
     (case map_of (volumeCache c) vid of
        None \<Rightarrow> (Inl TypeError, c)
      | Some cachedVolume \<Rightarrow>
          (let lo = volumeLoadObject cachedVolume;
               c1 = (if cancel lo then callHook (CancelCalled (vobj cachedVolume)) c else c);
               c2 = (if decache lo then callHook (DecacheCalled (vobj cachedVolume)) c1 else c1)
           in (Inr (), c2\<lparr>volumeCache := AList.delete vid (volumeCache c2)\<rparr>)))"

definition removeImageLoadObject :: "string option \<Rightarrow> cache \<Rightarrow> unit outcome" where
  "removeImageLoadObject imageId_arg c =
     (case imageId_arg of
        None \<Rightarrow> (Inl (Error ''removeImageLoadObject: imageId must not be undefined''), c)
      | Some iid \<Rightarrow>
          (case map_of (imageCache c) iid of
             None \<Rightarrow>
               (Inl (Error ''removeImageLoadObject: imageId was not present in imageCache''), c)
           | Some cachedImage \<Rightarrow>
               decacheImage iid
                 (triggerEvent (IMAGE_CACHE_IMAGE_REMOVED iid)
                   (incrementCacheSize (- sizeInBytes cachedImage) c))))"

definition removeVolumeLoadObject :: "string option \<Rightarrow> cache \<Rightarrow> unit outcome" where
  "removeVolumeLoadObject volumeId_arg c =
     (case volumeId_arg of
        None \<Rightarrow> (Inl (Error ''removeVolumeLoadObject: volumeId must not be undefined''), c)
      | Some vid \<Rightarrow>
          (case map_of (volumeCache c) vid of
             None \<Rightarrow>
               (Inl (Error ''removeVolumeLoadObject: volumeId was not present in volumeCache''), c)
           | Some cachedVolume \<Rightarrow>
               decacheVolume vid
                 (triggerEvent (IMAGE_CACHE_VOLUME_REMOVED vid)
                   (incrementCacheSize (- vsizeInBytes cachedVolume) c))))"

subsection \<open>Volume accessors\<close>

definition getImageVolume :: "string option \<Rightarrow> cache \<Rightarrow> (artifact option) outcome" where
  "getImageVolume volumeId_arg c =
     (case Map_get (volumeCache c) volumeId_arg of
        None \<Rightarrow> (Inl (Error ''Not present in cache''), c)
      | Some cachedVolume \<Rightarrow> (Inr (volume cachedVolume), c))"

text \<open>
  \<open>getVolume\<close> returns \<open>undefined\<close> (\<open>None\<close>) for an absent id and for an entry whose
  volume is not attached yet; on a present id it stamps the entry with the clock first.
\<close>

definition getVolume :: "int \<Rightarrow> string option \<Rightarrow> cache \<Rightarrow> (artifact option) outcome" where
  "getVolume now volumeId_arg c =
     (case volumeId_arg of
        None \<Rightarrow> (Inl (Error ''getVolume: volumeId must not be undefined''), c)
      | Some vid \<Rightarrow>
          (case map_of (volumeCache c) vid of
             None \<Rightarrow> (Inr None, c)
           | Some cachedVolume \<Rightarrow>
               (Inr (volume cachedVolume),
                c\<lparr>volumeCache :=
                    AList.update vid (cachedVolume\<lparr>vtimeStamp := now\<rparr>) (volumeCache c)\<rparr>)))"

definition getVolumeLoadObject :: "int \<Rightarrow> string option \<Rightarrow> cache \<Rightarrow> (loadObject option) outcome" where
  "getVolumeLoadObject now volumeId_arg c =
     (case volumeId_arg of
        None \<Rightarrow> (Inl (Error ''getVolumeLoadObject: volumeId must not be undefined''), c)
      | Some vid \<Rightarrow>
          (case map_of (volumeCache c) vid of
             None \<Rightarrow> (Inr None, c)
           | Some cachedVolume \<Rightarrow>
               (Inr (Some (volumeLoadObject cachedVolume)),
                c\<lparr>volumeCache :=
                    AList.update vid (cachedVolume\<lparr>vtimeStamp := now\<rparr>) (volumeCache c)\<rparr>)))"

definition getImageLoadObject :: "int \<Rightarrow> string option \<Rightarrow> cache \<Rightarrow> (loadObject option) outcome" where
  "getImageLoadObject now imageId_arg c =
     (case imageId_arg of
        None \<Rightarrow> (Inl (Error ''getImageLoadObject: imageId must not be undefined''), c)
      | Some iid \<Rightarrow>
          (case map_of (imageCache c) iid of
             None \<Rightarrow> (Inr None, c)
           | Some cachedImage \<Rightarrow>
               (Inr (Some (imageLoadObject cachedImage)),
                c\<lparr>imageCache :=
                    AList.update iid (cachedImage\<lparr>timeStamp := now\<rparr>) (imageCache c)\<rparr>)))"

subsection \<open>Making room on demand, and the full purge\<close>

text \<open>
  The loop of \<open>decacheUntilBytesAvailable\<close>. \<open>bytesAvailable\<close> is a constant of the
  method, computed once before the loop; the loop reads the next id from the iterator
  and drops that image until the iterator is done.
\<close>

fun decacheUntilBytesAvailable_loop ::
  "int \<Rightarrow> int \<Rightarrow> string list \<Rightarrow> cache \<Rightarrow> unit outcome" where
  "decacheUntilBytesAvailable_loop bytesAvailable numBytes [] c = (Inr (), c)"
| "decacheUntilBytesAvailable_loop bytesAvailable numBytes (iid # rest) c =
     (if bytesAvailable < numBytes then
        (case decacheImage iid c of
           (Inl e, c') \<Rightarrow> (Inl e, c')
         | (Inr u, c') \<Rightarrow> decacheUntilBytesAvailable_loop bytesAvailable numBytes rest c')
      else (Inr (), c))"

text \<open>
  The method names an identifier \<open>imageIterator\<close> that neither it, the class nor the
  module declares. \<open>imageIterator\<close> below is what the enclosing scope binds the name to:
  \<open>None\<close> when nothing does (the module as it stands), and then reading the name throws a
  ReferenceError; \<open>Some ids\<close> for an iterator that yields \<open>ids\<close>.
\<close>

definition decacheUntilBytesAvailable ::
  "string list option \<Rightarrow> int \<Rightarrow> cache \<Rightarrow> int outcome" where
  "decacheUntilBytesAvailable imageIterator numBytes c =
     (let bytesAvailable = getMaxCacheSize c - getCacheSize c in
      if bytesAvailable \<ge> numBytes then (Inr bytesAvailable, c)
      else
        (case imageIterator of
           None \<Rightarrow> (Inl ReferenceError, c)
         | Some ids \<Rightarrow>
             (case decacheUntilBytesAvailable_loop bytesAvailable numBytes ids c of
                (Inl e, c') \<Rightarrow> (Inl e, c')
              | (Inr u, c') \<Rightarrow> (Inr bytesAvailable, c'))))"

text \<open>
  \<open>purgeCache\<close> walks the keys of each \<open>Map\<close> and drops the entry of each key. Deleting
  the key just visited does not disturb the iterator, so the loop visits the keys the
  \<open>Map\<close> had at the start, in order.
\<close>

fun purgeCache_images :: "string list \<Rightarrow> cache \<Rightarrow> unit outcome" where
  "purgeCache_images [] c = (Inr (), c)"
| "purgeCache_images (iid # rest) c =
     (case decacheImage iid c of
        (Inl e, c') \<Rightarrow> (Inl e, c')
      | (Inr u, c') \<Rightarrow> purgeCache_images rest c')"

fun purgeCache_volumes :: "string list \<Rightarrow> cache \<Rightarrow> unit outcome" where
  "purgeCache_volumes [] c = (Inr (), c)"
| "purgeCache_volumes (vid # rest) c =
     (case decacheVolume vid c of
        (Inl e, c') \<Rightarrow> (Inl e, c')
      | (Inr u, c') \<Rightarrow> purgeCache_volumes rest c')"

definition purgeCache :: "cache \<Rightarrow> unit outcome" where
  "purgeCache c =
     (case purgeCache_images (map fst (imageCache c)) c of
        (Inl e, c') \<Rightarrow> (Inl e, c')
      | (Inr u, c') \<Rightarrow> purgeCache_volumes (map fst (volumeCache c')) c')"

subsection \<open>The sweep after a completed load\<close>

definition compare :: "cachedImage \<Rightarrow> cachedImage \<Rightarrow> int" where
  "compare a b =
     (if timeStamp a > timeStamp b then - 1
      else if timeStamp a < timeStamp b then 1
      else 0)"

text \<open>
  \<open>Array.prototype.sort\<close> with a comparison function is a stable sort: insertion from
  the right keeps equal elements in their order.
\<close>

fun Array_insert :: "cachedImage \<Rightarrow> cachedImage list \<Rightarrow> cachedImage list" where
  "Array_insert x [] = [x]"
| "Array_insert x (y # ys) =
     (if compare x y \<le> 0 then x # y # ys else y # Array_insert x ys)"

definition Array_sort :: "cachedImage list \<Rightarrow> cachedImage list" where
  "Array_sort xs = foldr Array_insert xs []"

text \<open>
  \<open>cachedImages\<close> is the result of \<open>Map.prototype.values()\<close>, an iterator object and not
  an array: it has no property \<open>sort\<close>, and the call \<open>cachedImages.sort(compare)\<close> throws
  a TypeError whatever the iterator would yield.
\<close>

definition MapIterator_sort :: "cachedImage list \<Rightarrow> error + cachedImage list" where
  "MapIterator_sort cachedImages = Inl TypeError"

lemma length_delete_present:
  "map_of al k = Some v \<Longrightarrow> length (AList.delete k al) < length al"
proof (induction al)
  case Nil
  then show ?case by simp
next
  case (Cons p al)
  show ?case
  proof (cases "fst p = k")
    case True
    have "length (AList.delete k al) \<le> length al"
      by (simp add: AList.delete_eq)
    with True show ?thesis
      by (cases p) simp
  next
    case False
    with Cons show ?thesis
      by (cases p) auto
  qed
qed

lemma decacheImage_shrinks:
  "decacheImage iid c = (Inr u, c') \<Longrightarrow> length (imageCache c') < length (imageCache c)"
  by (auto simp: decacheImage_def Let_def callHook_def length_delete_present
           split: option.splits if_splits)

lemma removeImageLoadObject_shrinks:
  "removeImageLoadObject a c = (Inr u, c') \<Longrightarrow> length (imageCache c') < length (imageCache c)"
  by (auto simp: removeImageLoadObject_def triggerEvent_def incrementCacheSize_def
           split: option.splits dest!: decacheImage_shrinks)

text \<open>
  The loop that removes images while the total exceeds the maximum, for a given array
  \<open>cachedImages\<close>. The array is never shortened: every round reads its last element.
  On an empty array that element is \<open>undefined\<close>, and reading its \<open>imageId\<close> throws.
\<close>

function removeWhileExceeded :: "cachedImage list \<Rightarrow> cache \<Rightarrow> unit outcome" where
  "removeWhileExceeded cachedImages c =
     (if getCacheSize c > getMaxCacheSize c then
        (case cachedImages of
           [] \<Rightarrow> (Inl TypeError, c)
         | x # xs \<Rightarrow>
             (case removeImageLoadObject (Some (imageId (last cachedImages))) c of
                (Inl e, c') \<Rightarrow> (Inl e, c')
              | (Inr u, c') \<Rightarrow>
                  removeWhileExceeded cachedImages
                    (triggerEvent (IMAGE_CACHE_IMAGE_REMOVED (imageId (last cachedImages))) c')))
      else (Inr (), c))"
  by pat_completeness auto
termination
proof (relation "measure (\<lambda>(cachedImages, c). length (imageCache c))")
  show "wf (measure (\<lambda>(cachedImages, c). length (imageCache c)))"
    by simp
next
  fix cachedImages :: "cachedImage list" and c x xs p u c'
  assume "(p, c') = removeImageLoadObject (Some (imageId (last cachedImages))) c"
     and "p = Inr u"
  then have "removeImageLoadObject (Some (imageId (last cachedImages))) c = (Inr u, c')"
    by simp
  then have "length (imageCache c') < length (imageCache c)"
    by (rule removeImageLoadObject_shrinks)
  then show "((cachedImages,
               triggerEvent (IMAGE_CACHE_IMAGE_REMOVED (imageId (last cachedImages))) c'),
              (cachedImages, c))
             \<in> measure (\<lambda>(cachedImages, c). length (imageCache c))"
    by (simp add: triggerEvent_def)
qed

declare removeWhileExceeded.simps [simp del]

definition purgeCacheIfNecessary :: "cache \<Rightarrow> unit outcome" where
  "purgeCacheIfNecessary c =
     (if getCacheSize c \<le> getMaxCacheSize c then (Inr (), c)
      else
        (case MapIterator_sort (map snd (imageCache c)) of
           Inl e \<Rightarrow> (Inl e, c)
         | Inr cachedImages \<Rightarrow> removeWhileExceeded cachedImages c))"

subsection \<open>Insertion and the callbacks of the load\<close>

text \<open>
  \<open>putImageLoadObject\<close> checks its arguments, creates the entry object and stores it
  under the id with \<open>Map.prototype.set\<close>. The callbacks it hands to \<open>promise.then\<close> close
  over the id and over the entry object just created, whose identity is the value of
  \<open>allocated\<close> before the call.
\<close>

definition putImageLoadObject :: "int \<Rightarrow> string option \<Rightarrow> loadObject \<Rightarrow> cache \<Rightarrow> unit outcome" where
  "putImageLoadObject now imageId_arg lo c =
     (case imageId_arg of
        None \<Rightarrow> (Inl (Error ''putImageLoadObject: imageId must not be undefined''), c)
      | Some iid \<Rightarrow>
          if \<not> promise lo then
            (Inl (Error ''putImageLoadObject: imageLoadObject.promise must not be undefined''), c)
          else if Map_hasOwnProperty (imageCache c) iid then
            (Inl (Error ''putImageLoadObject: imageId already in cache''), c)
          else if cancelFn lo = CancelFnOther then
            (Inl (Error ''putImageLoadObject: imageLoadObject.cancelFn must be a function''), c)
          else
            (let cachedImage =
                   \<lparr> image' = None, imageId = iid, imageLoadObject = lo, loaded = False,
                     sharedCacheKey = None, timeStamp = now, sizeInBytes = 0,
                     obj = allocated c \<rparr>
             in (Inr (),
                 c\<lparr>imageCache := AList.update iid cachedImage (imageCache c),
                   allocated := Suc (allocated c)\<rparr>)))"

definition putVolumeLoadObject :: "int \<Rightarrow> string option \<Rightarrow> loadObject \<Rightarrow> cache \<Rightarrow> unit outcome" where
  "putVolumeLoadObject now volumeId_arg lo c =
     (case volumeId_arg of
        None \<Rightarrow> (Inl (Error ''putVolumeLoadObject: volumeId must not be undefined''), c)
      | Some vid \<Rightarrow>
          if \<not> promise lo then
            (Inl (Error ''putVolumeLoadObject: volumeLoadObject.promise must not be undefined''), c)
          else if Map_hasOwnProperty (volumeCache c) vid then
            (Inl (Error ''putVolumeLoadObject: volumeId already in cache''), c)
          else if cancelFn lo = CancelFnOther then
            (Inl (Error ''putVolumeLoadObject: volumeLoadObject.cancelFn must be a function''), c)
          else
            (let cachedVolume =
                   \<lparr> volume = None, volumeId = vid, volumeLoadObject = lo, vloaded = False,
                     vtimeStamp = now, vsizeInBytes = 0, vobj = allocated c \<rparr>
             in (Inr (),
                 c\<lparr>volumeCache := AList.update vid cachedVolume (volumeCache c),
                   allocated := Suc (allocated c)\<rparr>)))"

text \<open>
  An assignment to a field of the entry object \<open>a\<close> of a closure: it shows in the \<open>Map\<close>
  where the \<open>Map\<close> holds that object, and nowhere when the object has been dropped or
  replaced.
\<close>

definition assignImage :: "nat \<Rightarrow> (cachedImage \<Rightarrow> cachedImage) \<Rightarrow> cache \<Rightarrow> cache" where
  "assignImage a f c =
     c\<lparr>imageCache := map (\<lambda>(k, e). (k, if obj e = a then f e else e)) (imageCache c)\<rparr>"

definition assignVolume :: "nat \<Rightarrow> (cachedVolume \<Rightarrow> cachedVolume) \<Rightarrow> cache \<Rightarrow> cache" where
  "assignVolume a f c =
     c\<lparr>volumeCache := map (\<lambda>(k, e). (k, if vobj e = a then f e else e)) (volumeCache c)\<rparr>"

text \<open>
  The first callback of \<open>promise.then\<close>, run when the load of entry object \<open>a\<close>, put under
  \<open>iid\<close>, resolves with \<open>img\<close>. The test at its head asks whether the \<open>Map\<close> has any entry
  under the id. \<open>null.toFixed\<close> throws a TypeError. An error thrown here rejects the
  promise that \<open>then\<close> returned; the second callback belongs to the same \<open>then\<close> and does
  not see it.
\<close>

definition imageLoaded :: "nat \<Rightarrow> string \<Rightarrow> artifact \<Rightarrow> cache \<Rightarrow> unit outcome" where
  "imageLoaded a iid img c =
     (case map_of (imageCache c) iid of
        None \<Rightarrow> (Inr (), c)
      | Some present \<Rightarrow>
          (let c1 = assignImage a (\<lambda>e. e\<lparr>loaded := True, image' := Some img\<rparr>) c in
           case art_sizeInBytes img of
             SizeUndefined \<Rightarrow>
               (Inl (Error ''putImageLoadObject: image.sizeInBytes must not be undefined''), c1)
           | SizeNull \<Rightarrow> (Inl TypeError, c1)
           | SizeOther \<Rightarrow>
               (Inl (Error ''putImageLoadObject: image.sizeInBytes is not a number''), c1)
           | SizeNumber n \<Rightarrow>
               (let c2 = assignImage a (\<lambda>e. e\<lparr>sizeInBytes := n\<rparr>) c1;
                    c3 = incrementCacheSize n c2;
                    c4 = triggerEvent (IMAGE_CACHE_IMAGE_ADDED iid) c3;
                    c5 = assignImage a (\<lambda>e. e\<lparr>sharedCacheKey := art_sharedCacheKey img\<rparr>) c4
                in purgeCacheIfNecessary c5)))"

text \<open>The second callback: the load was rejected.\<close>

definition imageFailed :: "string \<Rightarrow> cache \<Rightarrow> unit outcome" where
  "imageFailed iid c = (Inr (), c\<lparr>imageCache := AList.delete iid (imageCache c)\<rparr>)"

definition volumeLoaded :: "nat \<Rightarrow> string \<Rightarrow> artifact \<Rightarrow> cache \<Rightarrow> unit outcome" where
  "volumeLoaded a vid vol c =
     (case map_of (volumeCache c) vid of
        None \<Rightarrow> (Inr (), c)
      | Some present \<Rightarrow>
          (let c1 = assignVolume a (\<lambda>e. e\<lparr>vloaded := True, volume := Some vol\<rparr>) c in
           case art_sizeInBytes vol of
             SizeUndefined \<Rightarrow>
               (Inl (Error ''putVolumeLoadObject: volume.sizeInBytes must not be undefined''), c1)
           | SizeNull \<Rightarrow> (Inl TypeError, c1)
           | SizeOther \<Rightarrow>
               (Inl (Error ''putVolumeLoadObject: volume.sizeInBytes is not a number''), c1)
           | SizeNumber n \<Rightarrow>
               (let c2 = assignVolume a (\<lambda>e. e\<lparr>vsizeInBytes := n\<rparr>) c1;
                    c3 = incrementCacheSize n c2;
                    c4 = triggerEvent (IMAGE_CACHE_VOLUME_ADDED vid) c3
                in purgeCacheIfNecessary c4)))"

text \<open>
  The rejection callback of a volume reads \<open>this._volumeLoadObjects\<close>, a field the class
  never defines: calling \<open>delete\<close> on \<open>undefined\<close> throws a TypeError before the entry is
  deleted.
\<close>

definition volumeFailed :: "string \<Rightarrow> cache \<Rightarrow> unit outcome" where
  "volumeFailed vid c = (Inl TypeError, c)"

subsection \<open>The accounting the specification asks for\<close>

text \<open>
  The sum of \<open>sizeInBytes\<close> over the loaded entries of both collections, and the
  statement that the running total equals it.
\<close>

definition imageBytes :: "(string \<times> cachedImage) list \<Rightarrow> int" where
  "imageBytes al = sum_list (map (\<lambda>(k, e). sizeInBytes e) (filter (\<lambda>(k, e). loaded e) al))"

definition volumeBytes :: "(string \<times> cachedVolume) list \<Rightarrow> int" where
  "volumeBytes al = sum_list (map (\<lambda>(k, e). vsizeInBytes e) (filter (\<lambda>(k, e). vloaded e) al))"

definition loadedBytes :: "cache \<Rightarrow> int" where
  "loadedBytes c = imageBytes (imageCache c) + volumeBytes (volumeCache c)"

definition accounted :: "cache \<Rightarrow> bool" where
  "accounted c = (getCacheSize c = loadedBytes c)"

text \<open>The sizes that one of the two checks of a completion callback stops.\<close>

fun fails_check :: "size_val \<Rightarrow> bool" where
  "fails_check SizeUndefined = True"
| "fails_check SizeNull = True"
| "fails_check SizeOther = True"
| "fails_check (SizeNumber n) = False"

section \<open>Scenarios\<close>

text \<open>
  Caches reached from a fresh one by calls of the methods and callbacks. \<open>handle\<close> is a
  load object with a promise and both hooks; \<open>sized n\<close> is an artifact of \<open>n\<close> bytes.
  \<open>imageEntries\<close> and \<open>volumeEntries\<close> list a collection in its order: the id of each
  entry, the identity of the entry object, its \<open>loaded\<close> flag and its \<open>sizeInBytes\<close>.
\<close>

definition imageEntries :: "cache \<Rightarrow> (string \<times> nat \<times> bool \<times> int) list" where
  "imageEntries c = map (\<lambda>(k, e). (k, obj e, loaded e, sizeInBytes e)) (imageCache c)"

definition volumeEntries :: "cache \<Rightarrow> (string \<times> nat \<times> bool \<times> int) list" where
  "volumeEntries c = map (\<lambda>(k, e). (k, vobj e, vloaded e, vsizeInBytes e)) (volumeCache c)"

definition handle :: loadObject where
  "handle = \<lparr> promise = True, cancel = True, decache = True, cancelFn = CancelFnAbsent \<rparr>"

definition sized :: "int \<Rightarrow> artifact" where
  "sized n = \<lparr> art_sizeInBytes = SizeNumber n, art_sharedCacheKey = None \<rparr>"

text \<open>Image \<open>A\<close> put at time 1 and loaded with 60 bytes.\<close>

definition one_loaded_image :: cache where
  "one_loaded_image =
     snd (imageLoaded 0 ''A'' (sized 60)
       (snd (putImageLoadObject 1 (Some ''A'') handle new_cache)))"

text \<open>Then volume \<open>V\<close> put at time 2 and loaded with 40 bytes.\<close>

definition image_and_volume :: cache where
  "image_and_volume =
     snd (volumeLoaded 1 ''V'' (sized 40)
       (snd (putVolumeLoadObject 2 (Some ''V'') handle one_loaded_image)))"

text \<open>
  Image \<open>A\<close> put (entry object 0), removed while its load is pending, and put again
  (entry object 1); the same for volume \<open>V\<close>.
\<close>

definition reinserted :: cache where
  "reinserted =
     snd (putImageLoadObject 3 (Some ''A'') handle
       (snd (removeImageLoadObject (Some ''A'')
         (snd (putImageLoadObject 1 (Some ''A'') handle new_cache)))))"

definition reinserted_volume :: cache where
  "reinserted_volume =
     snd (putVolumeLoadObject 3 (Some ''V'') handle
       (snd (removeVolumeLoadObject (Some ''V'')
         (snd (putVolumeLoadObject 1 (Some ''V'') handle new_cache)))))"

text \<open>
  Images \<open>A\<close> and \<open>B\<close> loaded with 400000000 bytes each and image \<open>C\<close> put, its load
  pending; then the cache after \<open>C\<close> has completed with 900000000 bytes.
\<close>

definition two_loaded_third_pending :: cache where
  "two_loaded_third_pending =
     snd (putImageLoadObject 3 (Some ''C'') handle
       (snd (imageLoaded 1 ''B'' (sized 400000000)
         (snd (putImageLoadObject 2 (Some ''B'') handle
           (snd (imageLoaded 0 ''A'' (sized 400000000)
             (snd (putImageLoadObject 1 (Some ''A'') handle new_cache)))))))))"

definition over_budget :: cache where
  "over_budget = snd (imageLoaded 2 ''C'' (sized 900000000) two_loaded_third_pending)"

text \<open>
  Image \<open>A\<close> loaded with 30 bytes and volume \<open>V\<close> with 1073741754 bytes: 40 bytes are
  left below the default maximum.
\<close>

definition forty_free :: cache where
  "forty_free =
     snd (volumeLoaded 1 ''V'' (sized 1073741754)
       (snd (putVolumeLoadObject 2 (Some ''V'') handle
         (snd (imageLoaded 0 ''A'' (sized 30)
           (snd (putImageLoadObject 1 (Some ''A'') handle new_cache)))))))"

text \<open>
  Image \<open>A\<close> and volume \<open>V\<close> put, both loads pending; an artifact without a size, and
  one whose size is a string.
\<close>

definition pending :: cache where
  "pending =
     snd (putVolumeLoadObject 2 (Some ''V'') handle
       (snd (putImageLoadObject 1 (Some ''A'') handle new_cache)))"

definition unsized :: artifact where
  "unsized = \<lparr> art_sizeInBytes = SizeUndefined, art_sharedCacheKey = None \<rparr>"

definition string_sized :: artifact where
  "string_sized = \<lparr> art_sizeInBytes = SizeOther, art_sharedCacheKey = None \<rparr>"

section \<open>Facts about the methods\<close>

text \<open>The definitions that evaluating a scenario unfolds.\<close>

lemmas cache_defs =
  new_cache_def MAX_CACHE_SIZE_1GB_def getMaxCacheSize_def getCacheSize_def
  incrementCacheSize_def triggerEvent_def callHook_def Map_hasOwnProperty_def
  decacheImage_def decacheVolume_def removeImageLoadObject_def removeVolumeLoadObject_def
  MapIterator_sort_def purgeCacheIfNecessary_def putImageLoadObject_def
  putVolumeLoadObject_def assignImage_def assignVolume_def imageLoaded_def volumeLoaded_def
  imageEntries_def volumeEntries_def Let_def

text \<open>Dropping an entry, and so the full purge, never changes the running total.\<close>

lemma decacheImage_cacheSize: "cacheSize (snd (decacheImage iid c)) = cacheSize c"
  by (simp add: decacheImage_def callHook_def Let_def split: option.splits)

lemma decacheVolume_cacheSize: "cacheSize (snd (decacheVolume vid c)) = cacheSize c"
  by (simp add: decacheVolume_def callHook_def Let_def split: option.splits)

lemma purgeCache_images_cacheSize: "cacheSize (snd (purgeCache_images ks c)) = cacheSize c"
proof (induction ks arbitrary: c)
  case Nil
  then show ?case by simp
next
  case (Cons k ks)
  obtain r c' where step: "decacheImage k c = (r, c')"
    by (cases "decacheImage k c")
  then have "cacheSize c' = cacheSize c"
    using decacheImage_cacheSize [of k c] by simp
  with step Cons.IH [of c'] show ?case
    by (cases r) simp_all
qed

lemma purgeCache_volumes_cacheSize: "cacheSize (snd (purgeCache_volumes ks c)) = cacheSize c"
proof (induction ks arbitrary: c)
  case Nil
  then show ?case by simp
next
  case (Cons k ks)
  obtain r c' where step: "decacheVolume k c = (r, c')"
    by (cases "decacheVolume k c")
  then have "cacheSize c' = cacheSize c"
    using decacheVolume_cacheSize [of k c] by simp
  with step Cons.IH [of c'] show ?case
    by (cases r) simp_all
qed

lemma purgeCache_cacheSize: "getCacheSize (snd (purgeCache c)) = getCacheSize c"
proof -
  obtain r c' where step: "purgeCache_images (map fst (imageCache c)) c = (r, c')"
    by (cases "purgeCache_images (map fst (imageCache c)) c")
  then have "cacheSize c' = cacheSize c"
    using purgeCache_images_cacheSize [of "map fst (imageCache c)" c] by simp
  with step show ?thesis
    by (cases r) (simp_all add: purgeCache_def getCacheSize_def purgeCache_volumes_cacheSize)
qed

text \<open>
  The explicit removal lowers the total by the size of the entry before it drops it:
  on a collection with one entry per id it keeps the total equal to the sum.
\<close>

lemma delete_absent: "map_of al k = None \<Longrightarrow> AList.delete k al = al"
  by (induction al) (auto split: if_splits)

lemma imageBytes_delete:
  "distinct (map fst al) \<Longrightarrow> map_of al k = Some e \<Longrightarrow>
   imageBytes (AList.delete k al) = imageBytes al - (if loaded e then sizeInBytes e else 0)"
proof (induction al)
  case Nil
  then show ?case by simp
next
  case (Cons p al)
  obtain k' e' where p: "p = (k', e')" by (cases p)
  show ?case
  proof (cases "k' = k")
    case True
    with Cons.prems p have "map_of al k = None" "e' = e"
      by (auto simp: map_of_eq_None_iff)
    with True p show ?thesis
      by (simp add: imageBytes_def delete_absent)
  next
    case False
    with Cons p show ?thesis
      by (simp add: imageBytes_def)
  qed
qed

lemma removeImageLoadObject_accounted:
  assumes "accounted c" and "distinct (map fst (imageCache c))"
    and "map_of (imageCache c) iid = Some e" and "loaded e \<or> sizeInBytes e = 0"
  shows "fst (removeImageLoadObject (Some iid) c) = Inr () \<and>
         accounted (snd (removeImageLoadObject (Some iid) c))"
proof -
  have "imageBytes (AList.delete iid (imageCache c)) = imageBytes (imageCache c) - sizeInBytes e"
    using assms(2,3,4) imageBytes_delete [of "imageCache c" iid e] by auto
  with assms(1,3) show ?thesis
    by (simp add: removeImageLoadObject_def decacheImage_def accounted_def loadedBytes_def
          getCacheSize_def incrementCacheSize_def triggerEvent_def callHook_def Let_def)
qed

text \<open>
  On collections with one entry per id the purge returns normally with both
  collections empty, and with the total it found.
\<close>

lemma decacheImage_head:
  assumes "imageCache c = (k, e) # al" and "k \<notin> fst ` set al"
  shows "\<exists>c'. decacheImage k c = (Inr (), c') \<and> imageCache c' = al \<and>
              volumeCache c' = volumeCache c"
proof -
  from assms(2) have "map_of al k = None"
    by (simp add: map_of_eq_None_iff)
  then have "AList.delete k al = al"
    by (rule delete_absent)
  with assms(1) show ?thesis
    by (simp add: decacheImage_def callHook_def Let_def)
qed

lemma decacheVolume_head:
  assumes "volumeCache c = (k, e) # al" and "k \<notin> fst ` set al"
  shows "\<exists>c'. decacheVolume k c = (Inr (), c') \<and> volumeCache c' = al \<and>
              imageCache c' = imageCache c"
proof -
  from assms(2) have "map_of al k = None"
    by (simp add: map_of_eq_None_iff)
  then have "AList.delete k al = al"
    by (rule delete_absent)
  with assms(1) show ?thesis
    by (simp add: decacheVolume_def callHook_def Let_def)
qed

lemma purgeCache_images_empties:
  "imageCache c = al \<Longrightarrow> distinct (map fst al) \<Longrightarrow>
   \<exists>c'. purgeCache_images (map fst al) c = (Inr (), c') \<and> imageCache c' = [] \<and>
        volumeCache c' = volumeCache c"
proof (induction al arbitrary: c)
  case Nil
  then show ?case by simp
next
  case (Cons p al)
  obtain k e where p: "p = (k, e)" by (cases p)
  with Cons.prems have "imageCache c = (k, e) # al" "k \<notin> fst ` set al"
    by auto
  then obtain c1 where c1: "decacheImage k c = (Inr (), c1)" "imageCache c1 = al"
      "volumeCache c1 = volumeCache c"
    using decacheImage_head by blast
  from Cons.prems have "distinct (map fst al)" by simp
  with Cons.IH [OF c1(2)] obtain c' where
    "purgeCache_images (map fst al) c1 = (Inr (), c')" "imageCache c' = []"
    "volumeCache c' = volumeCache c1"
    by blast
  with c1 p show ?case by simp
qed

lemma purgeCache_volumes_empties:
  "volumeCache c = al \<Longrightarrow> distinct (map fst al) \<Longrightarrow>
   \<exists>c'. purgeCache_volumes (map fst al) c = (Inr (), c') \<and> volumeCache c' = [] \<and>
        imageCache c' = imageCache c"
proof (induction al arbitrary: c)
  case Nil
  then show ?case by simp
next
  case (Cons p al)
  obtain k e where p: "p = (k, e)" by (cases p)
  with Cons.prems have "volumeCache c = (k, e) # al" "k \<notin> fst ` set al"
    by auto
  then obtain c1 where c1: "decacheVolume k c = (Inr (), c1)" "volumeCache c1 = al"
      "imageCache c1 = imageCache c"
    using decacheVolume_head by blast
  from Cons.prems have "distinct (map fst al)" by simp
  with Cons.IH [OF c1(2)] obtain c' where
    "purgeCache_volumes (map fst al) c1 = (Inr (), c')" "volumeCache c' = []"
    "imageCache c' = imageCache c1"
    by blast
  with c1 p show ?case by simp
qed

lemma purgeCache_empties:
  assumes "distinct (map fst (imageCache c))" and "distinct (map fst (volumeCache c))"
  shows "fst (purgeCache c) = Inr () \<and> imageCache (snd (purgeCache c)) = [] \<and>
         volumeCache (snd (purgeCache c)) = [] \<and>
         getCacheSize (snd (purgeCache c)) = getCacheSize c"
proof -
  from assms(1) obtain c1 where c1:
    "purgeCache_images (map fst (imageCache c)) c = (Inr (), c1)" "imageCache c1 = []"
    "volumeCache c1 = volumeCache c"
    using purgeCache_images_empties [of c "imageCache c"] by blast
  with assms(2) obtain c2 where c2:
    "purgeCache_volumes (map fst (volumeCache c1)) c1 = (Inr (), c2)" "volumeCache c2 = []"
    "imageCache c2 = imageCache c1"
    using purgeCache_volumes_empties [of c1 "volumeCache c1"] by auto
  from c1 c2 have "purgeCache c = (Inr (), c2)"
    by (simp add: purgeCache_def)
  with c1 c2 purgeCache_cacheSize [of c] show ?thesis
    by simp
qed

text \<open>
  \<open>setMaxCacheSize\<close> stores the new maximum in every case, and throws exactly when the
  new maximum is larger than the total.
\<close>

lemma setMaxCacheSize_eq:
  "setMaxCacheSize n c =
     (if n > cacheSize c then Inl (Error ''New max cacheSize larger than current cachesize'')
      else Inr (), c\<lparr>maxCacheSize := n\<rparr>)"
  by (simp add: setMaxCacheSize_def Let_def)

text \<open>A completion that finds no entry under its id changes nothing.\<close>

lemma imageLoaded_absent:
  "map_of (imageCache c) iid = None \<Longrightarrow> imageLoaded a iid img c = (Inr (), c)"
  by (simp add: imageLoaded_def)

lemma volumeLoaded_absent:
  "map_of (volumeCache c) vid = None \<Longrightarrow> volumeLoaded a vid vol c = (Inr (), c)"
  by (simp add: volumeLoaded_def)

text \<open>
  With the requested room already there, \<open>decacheUntilBytesAvailable\<close> returns it and
  drops nothing. The sweep does nothing within the maximum and throws beyond it.
\<close>

lemma decacheUntilBytesAvailable_enough:
  "numBytes \<le> getMaxCacheSize c - getCacheSize c \<Longrightarrow>
   decacheUntilBytesAvailable it numBytes c = (Inr (getMaxCacheSize c - getCacheSize c), c)"
  by (simp add: decacheUntilBytesAvailable_def Let_def)

lemma purgeCacheIfNecessary_eq:
  "purgeCacheIfNecessary c =
     (if getCacheSize c \<le> getMaxCacheSize c then Inr () else Inl TypeError, c)"
  by (simp add: purgeCacheIfNecessary_def MapIterator_sort_def)

text \<open>An assignment through a closure keeps the keys of the collection.\<close>

lemma assignImage_keys: "map fst (imageCache (assignImage a f c)) = map fst (imageCache c)"
  by (simp add: assignImage_def case_prod_unfold comp_def)

lemma assignVolume_keys: "map fst (volumeCache (assignVolume a f c)) = map fst (volumeCache c)"
  by (simp add: assignVolume_def case_prod_unfold comp_def)

lemma map_of_assign:
  "map_of (map (\<lambda>(k, e). (k, g e)) al) k = map_option g (map_of al k)"
  by (induction al) auto

text \<open>
  A completion whose size one of the checks stops, with an entry present under its id:
  it ends in an error; the total, the trace and the other collection are as before; the
  collection keeps its keys, and the entry of the load, when it is the one under the id,
  is left there marked loaded with the artifact attached.
\<close>

lemma failed_check_keeps_entry:
  assumes "fails_check (art_sizeInBytes art)"
  shows
    "(map_of (imageCache c) iid = Some e \<longrightarrow>
        isl (fst (imageLoaded a iid art c)) \<and>
        getCacheSize (snd (imageLoaded a iid art c)) = getCacheSize c \<and>
        trace (snd (imageLoaded a iid art c)) = trace c \<and>
        map fst (imageCache (snd (imageLoaded a iid art c))) = map fst (imageCache c) \<and>
        volumeCache (snd (imageLoaded a iid art c)) = volumeCache c \<and>
        (obj e = a \<longrightarrow>
           map_of (imageCache (snd (imageLoaded a iid art c))) iid =
             Some (e\<lparr>loaded := True, image' := Some art\<rparr>))) \<and>
     (map_of (volumeCache c) vid = Some v \<longrightarrow>
        isl (fst (volumeLoaded b vid art c)) \<and>
        getCacheSize (snd (volumeLoaded b vid art c)) = getCacheSize c \<and>
        trace (snd (volumeLoaded b vid art c)) = trace c \<and>
        map fst (volumeCache (snd (volumeLoaded b vid art c))) = map fst (volumeCache c) \<and>
        imageCache (snd (volumeLoaded b vid art c)) = imageCache c \<and>
        (vobj v = b \<longrightarrow>
           map_of (volumeCache (snd (volumeLoaded b vid art c))) vid =
             Some (v\<lparr>vloaded := True, volume := Some art\<rparr>)))"
proof (intro conjI impI)
  assume p: "map_of (imageCache c) iid = Some e"
  let ?c1 = "assignImage a (\<lambda>e. e\<lparr>loaded := True, image' := Some art\<rparr>) c"
  from assms p
  have r: "isl (fst (imageLoaded a iid art c)) \<and> snd (imageLoaded a iid art c) = ?c1"
    by (cases "art_sizeInBytes art") (simp_all add: imageLoaded_def Let_def)
  from r show "isl (fst (imageLoaded a iid art c))" by simp
  from r show "getCacheSize (snd (imageLoaded a iid art c)) = getCacheSize c"
    by (simp add: assignImage_def getCacheSize_def)
  from r show "trace (snd (imageLoaded a iid art c)) = trace c"
    by (simp add: assignImage_def)
  from r show "map fst (imageCache (snd (imageLoaded a iid art c))) = map fst (imageCache c)"
    by (simp add: assignImage_keys)
  from r show "volumeCache (snd (imageLoaded a iid art c)) = volumeCache c"
    by (simp add: assignImage_def)
  assume "obj e = a"
  with r p show "map_of (imageCache (snd (imageLoaded a iid art c))) iid =
      Some (e\<lparr>loaded := True, image' := Some art\<rparr>)"
    by (simp add: assignImage_def map_of_assign)
next
  assume p: "map_of (volumeCache c) vid = Some v"
  let ?c1 = "assignVolume b (\<lambda>e. e\<lparr>vloaded := True, volume := Some art\<rparr>) c"
  from assms p
  have r: "isl (fst (volumeLoaded b vid art c)) \<and> snd (volumeLoaded b vid art c) = ?c1"
    by (cases "art_sizeInBytes art") (simp_all add: volumeLoaded_def Let_def)
  from r show "isl (fst (volumeLoaded b vid art c))" by simp
  from r show "getCacheSize (snd (volumeLoaded b vid art c)) = getCacheSize c"
    by (simp add: assignVolume_def getCacheSize_def)
  from r show "trace (snd (volumeLoaded b vid art c)) = trace c"
    by (simp add: assignVolume_def)
  from r show "map fst (volumeCache (snd (volumeLoaded b vid art c))) = map fst (volumeCache c)"
    by (simp add: assignVolume_keys)
  from r show "imageCache (snd (volumeLoaded b vid art c)) = imageCache c"
    by (simp add: assignVolume_def)
  assume "vobj v = b"
  with r p show "map_of (volumeCache (snd (volumeLoaded b vid art c))) vid =
      Some (v\<lparr>vloaded := True, volume := Some art\<rparr>)"
    by (simp add: assignVolume_def map_of_assign)
qed

subsection \<open>The scenarios, evaluated\<close>

lemma handle_simps [simp]:
  "promise handle" "cancel handle" "decache handle" "cancelFn handle = CancelFnAbsent"
  by (simp_all add: handle_def)

lemma sized_simps [simp]:
  "art_sizeInBytes (sized n) = SizeNumber n" "art_sharedCacheKey (sized n) = None"
  by (simp_all add: sized_def)

lemma one_loaded_image_eq:
  "one_loaded_image =
     \<lparr> imageCache =
         [(''A'', \<lparr> image' = Some (sized 60), imageId = ''A'', imageLoadObject = handle,
                   loaded = True, sharedCacheKey = None, timeStamp = 1, sizeInBytes = 60,
                   obj = 0 \<rparr>)],
       volumeCache = [], cacheSize = 60, maxCacheSize = 1073741824,
       trace = [IMAGE_CACHE_IMAGE_ADDED ''A''], allocated = 1 \<rparr>"
  by (simp add: one_loaded_image_def cache_defs)

lemma image_and_volume_eq:
  "image_and_volume =
     \<lparr> imageCache =
         [(''A'', \<lparr> image' = Some (sized 60), imageId = ''A'', imageLoadObject = handle,
                   loaded = True, sharedCacheKey = None, timeStamp = 1, sizeInBytes = 60,
                   obj = 0 \<rparr>)],
       volumeCache =
         [(''V'', \<lparr> volume = Some (sized 40), volumeId = ''V'', volumeLoadObject = handle,
                   vloaded = True, vtimeStamp = 2, vsizeInBytes = 40, vobj = 1 \<rparr>)],
       cacheSize = 100, maxCacheSize = 1073741824,
       trace = [IMAGE_CACHE_IMAGE_ADDED ''A'', IMAGE_CACHE_VOLUME_ADDED ''V''],
       allocated = 2 \<rparr>"
  by (simp add: image_and_volume_def one_loaded_image_eq cache_defs)

lemma reinserted_eq:
  "reinserted =
     \<lparr> imageCache =
         [(''A'', \<lparr> image' = None, imageId = ''A'', imageLoadObject = handle,
                   loaded = False, sharedCacheKey = None, timeStamp = 3, sizeInBytes = 0,
                   obj = 1 \<rparr>)],
       volumeCache = [], cacheSize = 0, maxCacheSize = 1073741824,
       trace = [IMAGE_CACHE_IMAGE_REMOVED ''A'', CancelCalled 0, DecacheCalled 0],
       allocated = 2 \<rparr>"
  by (simp add: reinserted_def cache_defs)

lemma reinserted_volume_eq:
  "reinserted_volume =
     \<lparr> imageCache = [],
       volumeCache =
         [(''V'', \<lparr> volume = None, volumeId = ''V'', volumeLoadObject = handle,
                   vloaded = False, vtimeStamp = 3, vsizeInBytes = 0, vobj = 1 \<rparr>)],
       cacheSize = 0, maxCacheSize = 1073741824,
       trace = [IMAGE_CACHE_VOLUME_REMOVED ''V'', CancelCalled 0, DecacheCalled 0],
       allocated = 2 \<rparr>"
  by (simp add: reinserted_volume_def cache_defs)

lemma two_loaded_third_pending_eq:
  "two_loaded_third_pending =
     \<lparr> imageCache =
         [(''A'', \<lparr> image' = Some (sized 400000000), imageId = ''A'',
                   imageLoadObject = handle, loaded = True, sharedCacheKey = None,
                   timeStamp = 1, sizeInBytes = 400000000, obj = 0 \<rparr>),
          (''B'', \<lparr> image' = Some (sized 400000000), imageId = ''B'',
                   imageLoadObject = handle, loaded = True, sharedCacheKey = None,
                   timeStamp = 2, sizeInBytes = 400000000, obj = 1 \<rparr>),
          (''C'', \<lparr> image' = None, imageId = ''C'',
                   imageLoadObject = handle, loaded = False, sharedCacheKey = None,
                   timeStamp = 3, sizeInBytes = 0, obj = 2 \<rparr>)],
       volumeCache = [], cacheSize = 800000000, maxCacheSize = 1073741824,
       trace = [IMAGE_CACHE_IMAGE_ADDED ''A'', IMAGE_CACHE_IMAGE_ADDED ''B''],
       allocated = 3 \<rparr>"
  by (simp add: two_loaded_third_pending_def cache_defs)

lemma over_budget_eq:
  "over_budget =
     \<lparr> imageCache =
         [(''A'', \<lparr> image' = Some (sized 400000000), imageId = ''A'',
                   imageLoadObject = handle, loaded = True, sharedCacheKey = None,
                   timeStamp = 1, sizeInBytes = 400000000, obj = 0 \<rparr>),
          (''B'', \<lparr> image' = Some (sized 400000000), imageId = ''B'',
                   imageLoadObject = handle, loaded = True, sharedCacheKey = None,
                   timeStamp = 2, sizeInBytes = 400000000, obj = 1 \<rparr>),
          (''C'', \<lparr> image' = Some (sized 900000000), imageId = ''C'',
                   imageLoadObject = handle, loaded = True, sharedCacheKey = None,
                   timeStamp = 3, sizeInBytes = 900000000, obj = 2 \<rparr>)],
       volumeCache = [], cacheSize = 1700000000, maxCacheSize = 1073741824,
       trace = [IMAGE_CACHE_IMAGE_ADDED ''A'', IMAGE_CACHE_IMAGE_ADDED ''B'',
                IMAGE_CACHE_IMAGE_ADDED ''C''],
       allocated = 3 \<rparr>"
  by (simp add: over_budget_def two_loaded_third_pending_eq cache_defs)

lemma forty_free_eq:
  "forty_free =
     \<lparr> imageCache =
         [(''A'', \<lparr> image' = Some (sized 30), imageId = ''A'', imageLoadObject = handle,
                   loaded = True, sharedCacheKey = None, timeStamp = 1, sizeInBytes = 30,
                   obj = 0 \<rparr>)],
       volumeCache =
         [(''V'', \<lparr> volume = Some (sized 1073741754), volumeId = ''V'',
                   volumeLoadObject = handle, vloaded = True, vtimeStamp = 2,
                   vsizeInBytes = 1073741754, vobj = 1 \<rparr>)],
       cacheSize = 1073741784, maxCacheSize = 1073741824,
       trace = [IMAGE_CACHE_IMAGE_ADDED ''A'', IMAGE_CACHE_VOLUME_ADDED ''V''],
       allocated = 2 \<rparr>"
  by (simp add: forty_free_def cache_defs)

lemma pending_eq:
  "pending =
     \<lparr> imageCache =
         [(''A'', \<lparr> image' = None, imageId = ''A'', imageLoadObject = handle,
                   loaded = False, sharedCacheKey = None, timeStamp = 1, sizeInBytes = 0,
                   obj = 0 \<rparr>)],
       volumeCache =
         [(''V'', \<lparr> volume = None, volumeId = ''V'', volumeLoadObject = handle,
                   vloaded = False, vtimeStamp = 2, vsizeInBytes = 0, vobj = 1 \<rparr>)],
       cacheSize = 0, maxCacheSize = 1073741824, trace = [], allocated = 2 \<rparr>"
  by (simp add: pending_def cache_defs)

text \<open>
  Were \<open>cachedImages\<close> an array of the entries, sorted, the loop would still not shorten
  it: in \<open>over_budget\<close> it removes \<open>A\<close>, the oldest, finds the total still above the
  maximum, reads \<open>A\<close> as the last element again and throws, with \<open>B\<close> and \<open>C\<close> left and
  1300000000 bytes counted.
\<close>

lemma Array_sort_over_budget:
  "map imageId (Array_sort (map snd (imageCache over_budget))) = [''C'', ''B'', ''A'']"
  by (simp add: over_budget_eq Array_sort_def compare_def)

lemma removeWhileExceeded_array:
  "fst (removeWhileExceeded (Array_sort (map snd (imageCache over_budget))) over_budget) =
     Inl (Error ''removeImageLoadObject: imageId was not present in imageCache'') \<and>
   map fst (imageCache
     (snd (removeWhileExceeded (Array_sort (map snd (imageCache over_budget))) over_budget))) =
     [''B'', ''C''] \<and>
   getCacheSize
     (snd (removeWhileExceeded (Array_sort (map snd (imageCache over_budget))) over_budget)) =
     1300000000"
  by (simp add: over_budget_eq Array_sort_def compare_def removeWhileExceeded.simps
        removeImageLoadObject_def decacheImage_def triggerEvent_def callHook_def
        incrementCacheSize_def getCacheSize_def getMaxCacheSize_def Let_def)

text \<open>
  Were \<open>imageIterator\<close> bound to an iterator over the keys of the image collection, as
  in \<open>purgeCache\<close>, the method would drop the image and still answer 40: the room is
  computed once, and dropping an image does not lower the total.
\<close>

lemma reserve_with_key_iterator:
  "decacheUntilBytesAvailable (Some (map fst (imageCache forty_free))) 50 forty_free =
     (Inr 40, forty_free\<lparr> imageCache := [],
        trace := trace forty_free @ [CancelCalled 0, DecacheCalled 0] \<rparr>) \<and>
   getMaxCacheSize
     (snd (decacheUntilBytesAvailable (Some (map fst (imageCache forty_free))) 50 forty_free)) -
   getCacheSize
     (snd (decacheUntilBytesAvailable (Some (map fst (imageCache forty_free))) 50 forty_free)) =
     40"
  by (simp add: forty_free_eq decacheUntilBytesAvailable_def cache_defs)

section \<open>Properties\<close>

text \<open>
  C1. After every mutating operation the running total equals the sum of \<open>sizeInBytes\<close>
  over the loaded entries of both collections. The code breaks this at the purge: with
  image \<open>A\<close> loaded (60 bytes) the total equals the sum, and after \<open>purgeCache\<close> the
  collections are empty, the sum is 0 and the total is still 60.
\<close>

theorem purge_breaks_accounting:
  "accounted one_loaded_image \<and>
   getCacheSize (snd (purgeCache one_loaded_image)) = 60 \<and>
   loadedBytes (snd (purgeCache one_loaded_image)) = 0 \<and>
   \<not> accounted (snd (purgeCache one_loaded_image))"
  by (simp add: one_loaded_image_eq purgeCache_def accounted_def loadedBytes_def
        imageBytes_def volumeBytes_def cache_defs)

text \<open>
  C2. \<open>purgeCache\<close> leaves both collections empty and the total at 0. The code empties
  both collections and leaves the total as it was: with image \<open>A\<close> (60 bytes) and
  volume \<open>V\<close> (40 bytes) loaded, the total is 100 before the purge and 100 after it.
\<close>

theorem purgeCache_keeps_total:
  "getCacheSize image_and_volume = 100 \<and>
   purgeCache image_and_volume =
     (Inr (), image_and_volume\<lparr> imageCache := [], volumeCache := [],
        trace := trace image_and_volume @
                 [CancelCalled 0, DecacheCalled 0, CancelCalled 1, DecacheCalled 1] \<rparr>) \<and>
   getCacheSize (snd (purgeCache image_and_volume)) = 100"
  by (simp add: image_and_volume_eq purgeCache_def cache_defs)

text \<open>
  C3. \<open>setMaxCacheSize\<close> below the total fails and changes nothing; at or above the total
  it succeeds. The code does the reverse: on a fresh cache (total 0) a maximum of
  2147483648 throws, and the maximum is already changed; with 60 bytes loaded a maximum
  of 10 is accepted.
\<close>

theorem setMaxCacheSize_inverted:
  "getCacheSize new_cache = 0 \<and>
   setMaxCacheSize 2147483648 new_cache =
     (Inl (Error ''New max cacheSize larger than current cachesize''),
      new_cache\<lparr>maxCacheSize := 2147483648\<rparr>) \<and>
   getCacheSize one_loaded_image = 60 \<and>
   setMaxCacheSize 10 one_loaded_image = (Inr (), one_loaded_image\<lparr>maxCacheSize := 10\<rparr>)"
  by (simp add: one_loaded_image_eq setMaxCacheSize_def cache_defs)

text \<open>
  C5. Putting an id that is already in its collection fails and creates no entry. The
  code accepts the second put: with \<open>A\<close> and \<open>V\<close> loaded, putting \<open>A\<close> (and \<open>V\<close>) again
  returns normally and replaces the loaded entry by a new, unloaded entry object.
\<close>

theorem duplicate_put_accepted:
  "imageEntries image_and_volume = [(''A'', 0, True, 60)] \<and>
   fst (putImageLoadObject 5 (Some ''A'') handle image_and_volume) = Inr () \<and>
   imageEntries (snd (putImageLoadObject 5 (Some ''A'') handle image_and_volume)) =
     [(''A'', 2, False, 0)] \<and>
   volumeEntries image_and_volume = [(''V'', 1, True, 40)] \<and>
   fst (putVolumeLoadObject 5 (Some ''V'') handle image_and_volume) = Inr () \<and>
   volumeEntries (snd (putVolumeLoadObject 5 (Some ''V'') handle image_and_volume)) =
     [(''V'', 2, False, 0)]"
  by (simp add: image_and_volume_eq cache_defs)

text \<open>
  C6. A load whose entry was removed before it completes changes nothing when it
  completes. The code tests for any entry under the id: once the id has been put
  again, the completion of the first load (entry object 0, no longer in the
  collection) adds its 60 bytes to the total and announces an added image, while the
  collection holds the second entry, unloaded.
\<close>

theorem stale_completion_counts:
  "imageEntries reinserted = [(''A'', 1, False, 0)] \<and>
   getCacheSize reinserted = 0 \<and>
   imageLoaded 0 ''A'' (sized 60) reinserted =
     (Inr (), reinserted\<lparr> cacheSize := 60,
        trace := trace reinserted @ [IMAGE_CACHE_IMAGE_ADDED ''A''] \<rparr>) \<and>
   volumeEntries reinserted_volume = [(''V'', 1, False, 0)] \<and>
   getCacheSize reinserted_volume = 0 \<and>
   volumeLoaded 0 ''V'' (sized 60) reinserted_volume =
     (Inr (), reinserted_volume\<lparr> cacheSize := 60,
        trace := trace reinserted_volume @ [IMAGE_CACHE_VOLUME_ADDED ''V''] \<rparr>)"
  by (simp add: reinserted_eq reinserted_volume_eq cache_defs)

text \<open>
  C4. The sweep after a completed load removes loaded images, oldest first, until the
  total is within the maximum. In the code the sweep throws as soon as the total
  exceeds the maximum and removes nothing: with \<open>A\<close> and \<open>B\<close> loaded (400000000 bytes
  each), the completion of \<open>C\<close> (900000000 bytes) ends in a TypeError with all three
  images in the collection and 1700000000 bytes counted against a maximum of
  1073741824.
\<close>

theorem sweep_throws_over_budget:
  "imageLoaded 2 ''C'' (sized 900000000) two_loaded_third_pending = (Inl TypeError, over_budget) \<and>
   imageEntries over_budget =
     [(''A'', 0, True, 400000000), (''B'', 1, True, 400000000), (''C'', 2, True, 900000000)] \<and>
   getCacheSize over_budget = 1700000000 \<and>
   getMaxCacheSize over_budget = 1073741824 \<and>
   purgeCacheIfNecessary over_budget = (Inl TypeError, over_budget)"
  by (simp add: over_budget_eq two_loaded_third_pending_eq cache_defs)

text \<open>
  C7. A load that completes with an artifact whose \<open>sizeInBytes\<close> is undefined or not
  numeric fails, adds nothing to the total and has its entry discarded as a failed load
  has. In the code the callback marks the entry loaded and attaches the artifact before
  it looks at the size, and then throws: the total and the trace stay as they were, but
  the entry stays in its collection, marked loaded with 0 bytes, where the rejection
  callback would have deleted it, and \<open>getImageVolume\<close> then returns the artifact of
  the volume.
\<close>

theorem malformed_entry_kept:
  "imageEntries pending = [(''A'', 0, False, 0)] \<and>
   fst (imageLoaded 0 ''A'' unsized pending) =
     Inl (Error ''putImageLoadObject: image.sizeInBytes must not be undefined'') \<and>
   imageEntries (snd (imageLoaded 0 ''A'' unsized pending)) = [(''A'', 0, True, 0)] \<and>
   imageEntries (snd (imageFailed ''A'' pending)) = [] \<and>
   fst (imageLoaded 0 ''A'' string_sized pending) =
     Inl (Error ''putImageLoadObject: image.sizeInBytes is not a number'') \<and>
   imageEntries (snd (imageLoaded 0 ''A'' string_sized pending)) = [(''A'', 0, True, 0)] \<and>
   getCacheSize (snd (imageLoaded 0 ''A'' string_sized pending)) = 0 \<and>
   trace (snd (imageLoaded 0 ''A'' string_sized pending)) = [] \<and>
   volumeEntries pending = [(''V'', 1, False, 0)] \<and>
   fst (volumeLoaded 1 ''V'' unsized pending) =
     Inl (Error ''putVolumeLoadObject: volume.sizeInBytes must not be undefined'') \<and>
   volumeEntries (snd (volumeLoaded 1 ''V'' unsized pending)) = [(''V'', 1, True, 0)] \<and>
   getCacheSize (snd (volumeLoaded 1 ''V'' unsized pending)) = 0 \<and>
   trace (snd (volumeLoaded 1 ''V'' unsized pending)) = [] \<and>
   fst (getImageVolume (Some ''V'') (snd (volumeLoaded 1 ''V'' unsized pending))) =
     Inr (Some unsized)"
  by (simp add: pending_eq imageFailed_def getImageVolume_def unsized_def string_sized_def
        cache_defs)

text \<open>
  C8. \<open>decacheUntilBytesAvailable\<close> evicts images, oldest first, until the requested room
  exists or no image is left, and returns the room then available. In the code a call
  that finds too little room throws: with 40 bytes free and a loaded image of 30
  bytes, a request for 50 bytes ends in a ReferenceError and evicts nothing, where the
  claim has the image evicted and 70 returned.
\<close>

theorem reserve_throws:
  "getMaxCacheSize forty_free - getCacheSize forty_free = 40 \<and>
   imageEntries forty_free = [(''A'', 0, True, 30)] \<and>
   decacheUntilBytesAvailable None 50 forty_free = (Inl ReferenceError, forty_free)"
  by (simp add: forty_free_eq decacheUntilBytesAvailable_def cache_defs)

text \<open>
  C9. A freshly constructed cache has an empty image collection, an empty volume
  collection, a running total of 0 and a maximum of exactly 1073741824 bytes.
\<close>

theorem new_cache_initial:
  "imageCache new_cache = [] \<and> volumeCache new_cache = [] \<and>
   getCacheSize new_cache = 0 \<and> getMaxCacheSize new_cache = 1073741824"
  by (simp add: new_cache_def getCacheSize_def getMaxCacheSize_def MAX_CACHE_SIZE_1GB_def)

text \<open>
  C10. For a volume id that is not in the volume collection, \<open>getImageVolume\<close> throws
  the error \<open>Not present in cache\<close>, while \<open>getVolume\<close> returns \<open>undefined\<close>; neither changes
  the cache.
\<close>

theorem absent_volume_accessors:
  assumes "map_of (volumeCache c) vid = None"
  shows "getImageVolume (Some vid) c = (Inl (Error ''Not present in cache''), c) \<and>
         getVolume now (Some vid) c = (Inr None, c)"
  using assms by (simp add: getImageVolume_def getVolume_def)

theorem absent_volume_accessors_witness:
  "map_of (volumeCache one_loaded_image) ''V'' = None \<and>
   getImageVolume (Some ''V'') one_loaded_image =
     (Inl (Error ''Not present in cache''), one_loaded_image) \<and>
   getVolume 7 (Some ''V'') one_loaded_image = (Inr None, one_loaded_image)"
proof -
  have h: "map_of (volumeCache one_loaded_image) ''V'' = None"
    by (simp add: one_loaded_image_eq)
  from h absent_volume_accessors [OF h, of 7] show ?thesis
    by simp
qed

end
